theory Spec2Isabelle
  imports Main
begin

section \<open>Data model of NestedSelect.tsx\<close>

text \<open>
  Identifiers are typed \<^verbatim>\<open>string | number\<close> in the source (\<^verbatim>\<open>NavigationItem.id\<close>,
  \<^verbatim>\<open>selectedItemId\<close>). Numeric identifiers are modelled as integers.
\<close>

datatype id_value = IdNum int | IdStr string

text \<open>
  \<^verbatim>\<open>NestedItem\<close>: the fields read through \<^verbatim>\<open>idKey\<close>, \<^verbatim>\<open>labelKey\<close> and
  \<^verbatim>\<open>childrenKey\<close>. The children field is optional in the source
  (\<^verbatim>\<open>children?: NestedItem[]\<close>), hence the option.
\<close>

datatype item =
  Item (item_id: id_value) (item_label: string) (item_children: "item list option")

record NavigationItem =
  nav_id :: id_value
  nav_label :: string
  nav_parentId :: "id_value option"

text \<open>
  What a handler does besides updating the component state: a call of the \<^verbatim>\<open>onSelect\<close>
  prop with its two arguments, or a call of \<^verbatim>\<open>searchRef.current?.focus()\<close>.
\<close>

datatype effect = OnSelect item "NavigationItem list" | FocusSearch

text \<open>
  The \<^verbatim>\<open>useState\<close> cells of the component, and the log of effects performed so far
  (oldest first).
\<close>

record widget_state =
  isOpen :: bool
  navigationPath :: "NavigationItem list"
  searchQuery :: string
  isSearching :: bool
  selectedItem :: "item option"
  calls :: "effect list"

text \<open>The props that the handlers and the render conditions read.\<close>

record props =
  items :: "item list"
  disableItem :: "(item \<Rightarrow> bool) option"
  filterItems :: "(item list \<Rightarrow> string \<Rightarrow> item list) option"
  showSelectAll :: bool
  showBreadcrumb :: bool

definition initial :: widget_state where
  "initial = \<lparr>isOpen = False, navigationPath = [], searchQuery = [],
     isSearching = False, selectedItem = None, calls = []\<rparr>"

section \<open>JavaScript comparisons on identifiers\<close>

text \<open>
  Truthiness of an identifier, as tested by \<^verbatim>\<open>!currentParentId\<close> and
  \<^verbatim>\<open>if (currentParentId)\<close>: the number 0 and the empty string are falsy.
\<close>

fun truthy :: "id_value \<Rightarrow> bool" where
  "truthy (IdNum n) = (n \<noteq> 0)"
| "truthy (IdStr s) = (s \<noteq> [])"

text \<open>
  Loose equality \<^verbatim>\<open>==\<close> on identifiers. Values of the same type compare as with
  \<^verbatim>\<open>===\<close>; a number and a string compare the number with the string converted by the
  language's ToNumber. The conversion belongs to the JavaScript runtime, so it is the parameter
  \<open>tn\<close>: \<open>tn s = Some n\<close> when the string \<open>s\<close> converts to the integer \<open>n\<close>, and \<open>None\<close>
  when it converts to NaN or to a number that is no integer.
\<close>

fun looseEq :: "(string \<Rightarrow> int option) \<Rightarrow> id_value \<Rightarrow> id_value \<Rightarrow> bool" where
  "looseEq tn (IdNum a) (IdNum b) = (a = b)"
| "looseEq tn (IdStr a) (IdStr b) = (a = b)"
| "looseEq tn (IdNum a) (IdStr b) = (tn b = Some a)"
| "looseEq tn (IdStr a) (IdNum b) = (tn a = Some b)"

section \<open>Tree lookup\<close>

text \<open>
  \<^verbatim>\<open>findItem\<close> of the selected-item effect (source lines 114-125): the comparison is
  \<^verbatim>\<open>item[idKey] == id\<close>.
\<close>

function findItemLoose ::
  "(string \<Rightarrow> int option) \<Rightarrow> item list \<Rightarrow> id_value \<Rightarrow> item option" where
  "findItemLoose tn [] i = None"
| "findItemLoose tn (Item k l c # rest) i =
     (if looseEq tn k i then Some (Item k l c)
      else (case c of
              None \<Rightarrow> findItemLoose tn rest i
            | Some cs \<Rightarrow>
                if length cs \<noteq> 0
                then (case findItemLoose tn cs i of
                        Some found \<Rightarrow> Some found
                      | None \<Rightarrow> findItemLoose tn rest i)
                else findItemLoose tn rest i))"
  by pat_completeness auto
termination
  by (relation "measure (\<lambda>(tn, xs, i). size_list size xs)") auto

text \<open>
  \<^verbatim>\<open>findItem\<close> of \<^verbatim>\<open>handleSelectAll\<close> (source lines 239-250): the comparison is
  \<^verbatim>\<open>item[idKey] === id\<close>.
\<close>

function findItem :: "item list \<Rightarrow> id_value \<Rightarrow> item option" where
  "findItem [] i = None"
| "findItem (Item k l c # rest) i =
     (if k = i then Some (Item k l c)
      else (case c of
              None \<Rightarrow> findItem rest i
            | Some cs \<Rightarrow>
                if length cs \<noteq> 0
                then (case findItem cs i of
                        Some found \<Rightarrow> Some found
                      | None \<Rightarrow> findItem rest i)
                else findItem rest i))"
  by pat_completeness auto
termination
  by (relation "measure (\<lambda>(xs, i). size_list size xs)") auto

text \<open>
  \<^verbatim>\<open>findChildren\<close> of \<^verbatim>\<open>getCurrentItems\<close> (source lines 138-149). A match returns
  \<^verbatim>\<open>item[childrenKey] || []\<close>; the result of a recursive call is taken only when it is
  non-empty (\<^verbatim>\<open>if (found.length) return found\<close>).
\<close>

function findChildren :: "item list \<Rightarrow> id_value \<Rightarrow> item list" where
  "findChildren [] i = []"
| "findChildren (Item k l c # rest) i =
     (if k = i then (case c of None \<Rightarrow> [] | Some cs \<Rightarrow> cs)
      else (case c of
              None \<Rightarrow> findChildren rest i
            | Some cs \<Rightarrow>
                if length cs \<noteq> 0
                then (let found = findChildren cs i
                      in if length found \<noteq> 0 then found else findChildren rest i)
                else findChildren rest i))"
  by pat_completeness auto
termination
  by (relation "measure (\<lambda>(xs, i). size_list size xs)") auto

text \<open>
  The reference traversal: the nodes of a forest in depth-first pre-order (a node, then its
  descendants, then its later siblings).
\<close>

function preorder :: "item list \<Rightarrow> item list" where
  "preorder [] = []"
| "preorder (Item k l c # rest) =
     Item k l c # (case c of None \<Rightarrow> [] | Some cs \<Rightarrow> preorder cs) @ preorder rest"
  by pat_completeness auto
termination
  by (relation "measure (size_list size)") auto

section \<open>Derived values of a render\<close>

text \<open>Source lines 99-101.\<close>

definition currentParentId :: "widget_state \<Rightarrow> id_value option" where
  "currentParentId s =
     (if length (navigationPath s) \<noteq> 0
      then Some (nav_id (last (navigationPath s)))
      else None)"

text \<open>
  Source lines 132-152. The test \<^verbatim>\<open>!currentParentId\<close> holds for \<^verbatim>\<open>null\<close> and for a
  falsy identifier.
\<close>

definition getCurrentItems :: "props \<Rightarrow> widget_state \<Rightarrow> item list" where
  "getCurrentItems p s =
     (case currentParentId s of
        None \<Rightarrow> items p
      | Some i \<Rightarrow> if \<not> truthy i then items p else findChildren (items p) i)"

text \<open>Source lines 155-163.\<close>

definition currentItems :: "props \<Rightarrow> widget_state \<Rightarrow> item list" where
  "currentItems p s =
     (let currentMenu = getCurrentItems p s
      in case filterItems p of
           Some f \<Rightarrow> if searchQuery s \<noteq> [] then f currentMenu (searchQuery s) else currentMenu
         | None \<Rightarrow> currentMenu)"

text \<open>\<^verbatim>\<open>disableItem?.(item)\<close>: false when the prop is not supplied.\<close>

definition isDisabled :: "props \<Rightarrow> item \<Rightarrow> bool" where
  "isDisabled p it = (case disableItem p of None \<Rightarrow> False | Some d \<Rightarrow> d it)"

text \<open>\<^verbatim>\<open>item[childrenKey]?.length > 0\<close>.\<close>

definition hasChildren :: "item \<Rightarrow> bool" where
  "hasChildren it = (case item_children it of None \<Rightarrow> False | Some cs \<Rightarrow> length cs > 0)"

section \<open>Event handlers\<close>

text \<open>
  Each handler is a function from the state of the render it was created in to the state after
  its updates are applied. The functional update of \<^verbatim>\<open>setNavigationPath\<close> receives the same
  path that the closure sees, since the component is rendered again between two events.
\<close>

text \<open>Source lines 166-208.\<close>

definition handleItemClick :: "props \<Rightarrow> item \<Rightarrow> widget_state \<Rightarrow> widget_state" where
  "handleItemClick p it s =
     (if isDisabled p it then s
      else if hasChildren it then
        s\<lparr>navigationPath := navigationPath s @
             [\<lparr>nav_id = item_id it, nav_label = item_label it,
               nav_parentId = currentParentId s\<rparr>],
          calls := calls s @ (if isSearching s then [FocusSearch] else [])\<rparr>
      else
        s\<lparr>calls := calls s @ [OnSelect it (navigationPath s)],
          selectedItem := Some it,
          isOpen := False,
          searchQuery := [],
          isSearching := False\<rparr>)"

text \<open>Source lines 211-214; \<^verbatim>\<open>prev.slice(0, -1)\<close> of the empty array is the empty array.\<close>

definition handleBack :: "widget_state \<Rightarrow> widget_state" where
  "handleBack s = s\<lparr>navigationPath := butlast (navigationPath s), searchQuery := []\<rparr>"

text \<open>Source lines 217-222.\<close>

definition handleClose :: "widget_state \<Rightarrow> widget_state" where
  "handleClose s =
     s\<lparr>isOpen := False, navigationPath := [], searchQuery := [], isSearching := False\<rparr>"

text \<open>
  Source lines 225-234. The focus call is deferred by \<^verbatim>\<open>setTimeout(..., 0)\<close>; it is logged
  at the toggle.
\<close>

definition toggleSearch :: "widget_state \<Rightarrow> widget_state" where
  "toggleSearch s =
     (if \<not> isSearching s
      then s\<lparr>isSearching := True, calls := calls s @ [FocusSearch]\<rparr>
      else s\<lparr>isSearching := False, searchQuery := []\<rparr>)"

text \<open>Source lines 237-261.\<close>

definition handleSelectAll :: "props \<Rightarrow> widget_state \<Rightarrow> widget_state" where
  "handleSelectAll p s =
     (case currentParentId s of
        None \<Rightarrow> s
      | Some i \<Rightarrow>
          if \<not> truthy i then s
          else (case findItem (items p) i of
                  None \<Rightarrow> s
                | Some currentItem \<Rightarrow>
                    s\<lparr>calls := calls s @ [OnSelect currentItem (navigationPath s)],
                      selectedItem := Some currentItem,
                      isOpen := False,
                      searchQuery := [],
                      isSearching := False\<rparr>))"

text \<open>The selected-item effect, source lines 107-129.\<close>

definition resolveSelected ::
  "(string \<Rightarrow> int option) \<Rightarrow> item list \<Rightarrow> id_value option \<Rightarrow> item option" where
  "resolveSelected tn its selectedItemId =
     (case selectedItemId of None \<Rightarrow> None | Some i \<Rightarrow> findItemLoose tn its i)"

definition resyncSelected ::
  "(string \<Rightarrow> int option) \<Rightarrow> props \<Rightarrow> id_value option \<Rightarrow> widget_state \<Rightarrow> widget_state" where
  "resyncSelected tn p selectedItemId s =
     s\<lparr>selectedItem := resolveSelected tn (items p) selectedItemId\<rparr>"

text \<open>The trigger button, source line 342: \<^verbatim>\<open>setIsOpen(!isOpen)\<close>.\<close>

definition triggerClick :: "widget_state \<Rightarrow> widget_state" where
  "triggerClick s = s\<lparr>isOpen := \<not> isOpen s\<rparr>"

text \<open>The search input, source line 394.\<close>

definition queryInput :: "string \<Rightarrow> widget_state \<Rightarrow> widget_state" where
  "queryInput q s = s\<lparr>searchQuery := q\<rparr>"

section \<open>The widget as a transition system\<close>

datatype event =
    TriggerClick
  | ItemClick item
  | BackClick
  | SearchToggle
  | QueryInput string
  | SelectAllClick
  | OutsideClick
  | SelectedIdChange "id_value option"

fun step :: "(string \<Rightarrow> int option) \<Rightarrow> props \<Rightarrow> event \<Rightarrow> widget_state \<Rightarrow> widget_state" where
  "step tn p TriggerClick s = triggerClick s"
| "step tn p (ItemClick it) s = handleItemClick p it s"
| "step tn p BackClick s = handleBack s"
| "step tn p SearchToggle s = toggleSearch s"
| "step tn p (QueryInput q) s = queryInput q s"
| "step tn p SelectAllClick s = handleSelectAll p s"
| "step tn p OutsideClick s = handleClose s"
| "step tn p (SelectedIdChange sel) s = resyncSelected tn p sel s"

fun run :: "(string \<Rightarrow> int option) \<Rightarrow> props \<Rightarrow> event list \<Rightarrow> widget_state \<Rightarrow> widget_state" where
  "run tn p [] s = s"
| "run tn p (e # es) s = run tn p es (step tn p e s)"

text \<open>
  Which events the rendered component offers in a state (source lines 337-459): the trigger
  button is always rendered and the outside-click listener always installed; everything else
  is inside \<^verbatim>\<open>{isOpen && ...}\<close>. An item button is rendered for each element of
  \<^verbatim>\<open>displayItems\<close> and carries \<^verbatim>\<open>disabled={isDisabled}\<close>.
\<close>

fun offered :: "props \<Rightarrow> widget_state \<Rightarrow> event \<Rightarrow> bool" where
  "offered p s TriggerClick = True"
| "offered p s (ItemClick it) =
     (isOpen s \<and> it \<in> set (currentItems p s) \<and> \<not> isDisabled p it)"
| "offered p s BackClick = (isOpen s \<and> length (navigationPath s) > 0)"
| "offered p s SearchToggle = isOpen s"
| "offered p s (QueryInput q) = (isOpen s \<and> isSearching s)"
| "offered p s SelectAllClick =
     (isOpen s \<and> showBreadcrumb p \<and> length (navigationPath s) > 0 \<and> showSelectAll p)"
| "offered p s OutsideClick = True"
| "offered p s (SelectedIdChange sel) = True"

text \<open>A sequence of events each of which is offered in the state it occurs in.\<close>

fun offeredRun :: "(string \<Rightarrow> int option) \<Rightarrow> props \<Rightarrow> widget_state \<Rightarrow> event list \<Rightarrow> bool" where
  "offeredRun tn p s [] = True"
| "offeredRun tn p s (e # es) = (offered p s e \<and> offeredRun tn p (step tn p e s) es)"

section \<open>Reference definitions\<close>

text \<open>
  Parent consistency of a navigation path: the first entry's \<^verbatim>\<open>parentId\<close> is the given
  one, and each later entry's \<^verbatim>\<open>parentId\<close> is the \<^verbatim>\<open>id\<close> of the entry before it.
\<close>

fun pathFrom :: "id_value option \<Rightarrow> NavigationItem list \<Rightarrow> bool" where
  "pathFrom prev [] = True"
| "pathFrom prev (e # es) = (nav_parentId e = prev \<and> pathFrom (Some (nav_id e)) es)"

definition parentConsistent :: "NavigationItem list \<Rightarrow> bool" where
  "parentConsistent es = pathFrom None es"

text \<open>
  The derivation of the visible items in the words of the specification: the active parent is
  the id of the last entry of the path, or none at the root; with no active parent the visible
  set is the top-level sequence, otherwise \<^verbatim>\<open>findChildren(tree, parentId)\<close>; the filter
  applies when the query is non-empty and a filter was supplied.
\<close>

definition specActiveParent :: "widget_state \<Rightarrow> id_value option" where
  "specActiveParent s =
     (case navigationPath s of [] \<Rightarrow> None | e # es \<Rightarrow> Some (nav_id (last (e # es))))"

definition specVisible :: "props \<Rightarrow> widget_state \<Rightarrow> item list" where
  "specVisible p s =
     (case specActiveParent s of None \<Rightarrow> items p | Some i \<Rightarrow> findChildren (items p) i)"

definition specCurrentItems :: "props \<Rightarrow> widget_state \<Rightarrow> item list" where
  "specCurrentItems p s =
     (case filterItems p of
        Some f \<Rightarrow> if searchQuery s \<noteq> [] then f (specVisible p s) (searchQuery s)
                  else specVisible p s
      | None \<Rightarrow> specVisible p s)"

section \<open>Example trees\<close>

text \<open>The tree of the specification's scenarios.\<close>

definition leafA1 :: item where
  "leafA1 = Item (IdNum 11) ''A1'' None"

definition nodeA :: item where
  "nodeA = Item (IdNum 1) ''A'' (Some [leafA1])"

definition leafB :: item where
  "leafB = Item (IdNum 2) ''B'' None"

definition exampleProps :: props where
  "exampleProps = \<lparr>items = [nodeA, leafB], disableItem = None, filterItems = None,
     showSelectAll = True, showBreadcrumb = True\<rparr>"

text \<open>The same tree with a predicate that disables the item whose id is 2.\<close>

definition disablingProps :: props where
  "disablingProps = exampleProps\<lparr>disableItem := Some (\<lambda>it. item_id it = IdNum 2)\<rparr>"

text \<open>
  ToNumber on the strings used in the examples: the empty string converts to 0 and a decimal
  numeral to its value.
\<close>

definition exampleToNumber :: "string \<Rightarrow> int option" where
  "exampleToNumber s =
     (if s = [] then Some 0
      else if s = ''1'' then Some 1 else if s = ''2'' then Some 2
      else if s = ''11'' then Some 11
      else None)"

text \<open>The dropdown opened and the group \<open>A\<close> entered.\<close>

definition entryA :: NavigationItem where
  "entryA = \<lparr>nav_id = IdNum 1, nav_label = ''A'', nav_parentId = None\<rparr>"

definition atLevelA :: widget_state where
  "atLevelA = run exampleToNumber exampleProps [TriggerClick, ItemClick nodeA] initial"

text \<open>A tree whose first group has the numeric id 0.\<close>

definition leafZ1 :: item where
  "leafZ1 = Item (IdNum 5) ''Z1'' None"

definition nodeZ :: item where
  "nodeZ = Item (IdNum 0) ''Z'' (Some [leafZ1])"

definition zeroProps :: props where
  "zeroProps = \<lparr>items = [nodeZ, leafB], disableItem = None, filterItems = None,
     showSelectAll = True, showBreadcrumb = True\<rparr>"

definition entryZ :: NavigationItem where
  "entryZ = \<lparr>nav_id = IdNum 0, nav_label = ''Z'', nav_parentId = None\<rparr>"

definition atLevelZ :: widget_state where
  "atLevelZ = run exampleToNumber zeroProps [TriggerClick, ItemClick nodeZ] initial"

text \<open>A tree whose first group has the empty string as id.\<close>

definition nodeE :: item where
  "nodeE = Item (IdStr []) ''E'' (Some [leafZ1])"

definition emptyIdProps :: props where
  "emptyIdProps = \<lparr>items = [nodeE, leafB], disableItem = None, filterItems = None,
     showSelectAll = True, showBreadcrumb = True\<rparr>"

definition atLevelE :: widget_state where
  "atLevelE = run exampleToNumber emptyIdProps [TriggerClick, ItemClick nodeE] initial"

text \<open>Two top-level leaves, one with the string id \<open>1\<close> and one with the number 1 as id.\<close>

definition nodeS :: item where
  "nodeS = Item (IdStr ''1'') ''S'' None"

definition nodeN :: item where
  "nodeN = Item (IdNum 1) ''N'' None"

text \<open>The scenario tree with a filter that keeps the items whose label is the query.\<close>

definition filteringProps :: props where
  "filteringProps =
     exampleProps\<lparr>filterItems := Some (\<lambda>its q. filter (\<lambda>it. item_label it = q) its)\<rparr>"

section \<open>Auxiliary facts\<close>

lemmas handler_defs =
  triggerClick_def handleItemClick_def handleBack_def handleClose_def toggleSearch_def
  handleSelectAll_def queryInput_def resyncSelected_def resolveSelected_def

lemmas derived_defs =
  currentParentId_def getCurrentItems_def currentItems_def isDisabled_def hasChildren_def

lemmas example_defs =
  initial_def leafA1_def nodeA_def leafB_def exampleProps_def disablingProps_def
  exampleToNumber_def entryA_def leafZ1_def nodeZ_def zeroProps_def entryZ_def
  nodeE_def emptyIdProps_def nodeS_def nodeN_def filteringProps_def

lemma atLevelA_eq:
  "atLevelA = \<lparr>isOpen = True, navigationPath = [entryA], searchQuery = [],
     isSearching = False, selectedItem = None, calls = []\<rparr>"
  by (simp add: atLevelA_def handler_defs derived_defs example_defs)

lemma atLevelA_offered:
  "offeredRun exampleToNumber exampleProps initial [TriggerClick, ItemClick nodeA]"
  by (simp add: handler_defs derived_defs example_defs)

lemma atLevelZ_eq:
  "atLevelZ = \<lparr>isOpen = True, navigationPath = [entryZ], searchQuery = [],
     isSearching = False, selectedItem = None, calls = []\<rparr>"
  by (simp add: atLevelZ_def handler_defs derived_defs example_defs)

lemma atLevelZ_offered:
  "offeredRun exampleToNumber zeroProps initial [TriggerClick, ItemClick nodeZ]"
  by (simp add: handler_defs derived_defs example_defs)

lemma find_app:
  "List.find P (xs @ ys) =
     (case List.find P xs of None \<Rightarrow> List.find P ys | Some x \<Rightarrow> Some x)"
  by (induction xs) auto

lemma find_filter_head: "filter P ys = n # r \<Longrightarrow> List.find P ys = Some n"
  by (induction ys) (auto split: if_splits)

lemma find_filter_empty: "filter P ys = [] \<Longrightarrow> List.find P ys = None"
  by (induction ys) (auto split: if_splits)

lemma findItem_find: "findItem xs i = List.find (\<lambda>n. item_id n = i) (preorder xs)"
  by (induction xs i rule: findItem.induct) (auto simp: find_app split: option.splits)

lemma findItemLoose_find:
  "findItemLoose tn xs i = List.find (\<lambda>n. looseEq tn (item_id n) i) (preorder xs)"
  by (induction tn xs i rule: findItemLoose.induct)
     (auto simp: find_app split: option.splits)

text \<open>On identifiers of the same JavaScript type, \<^verbatim>\<open>==\<close> and \<^verbatim>\<open>===\<close> agree.\<close>

lemma looseEq_same_type:
  "looseEq tn (IdNum a) (IdNum b) = (IdNum a = IdNum b)"
  "looseEq tn (IdStr x) (IdStr y) = (IdStr x = IdStr y)"
  by simp_all

lemma pathFrom_snoc:
  "pathFrom prev (es @ [e]) =
     (pathFrom prev es \<and> nav_parentId e = (if es = [] then prev else Some (nav_id (last es))))"
  by (induction es arbitrary: prev) auto

lemma pathFrom_butlast: "pathFrom prev es \<Longrightarrow> pathFrom prev (butlast es)"
  by (induction es arbitrary: prev) auto

text \<open>The recursive definition of parent consistency, entry by entry.\<close>

lemma pathFrom_index:
  "pathFrom prev es =
     ((es \<noteq> [] \<longrightarrow> nav_parentId (hd es) = prev) \<and>
      (\<forall>k. Suc k < length es \<longrightarrow> nav_parentId (es ! Suc k) = Some (nav_id (es ! k))))"
proof (induction es arbitrary: prev)
  case Nil
  show ?case by simp
next
  case (Cons e es)
  show ?case
  proof (cases es)
    case Nil
    then show ?thesis by simp
  next
    case (Cons e' es')
    have "(\<forall>k. Suc k < length (e # es) \<longrightarrow>
              nav_parentId ((e # es) ! Suc k) = Some (nav_id ((e # es) ! k))) =
          (nav_parentId (hd es) = Some (nav_id e) \<and>
           (\<forall>k. Suc k < length es \<longrightarrow> nav_parentId (es ! Suc k) = Some (nav_id (es ! k))))"
      (is "?L = ?R")
    proof
      assume l: ?L
      have "nav_parentId ((e # es) ! Suc 0) = Some (nav_id ((e # es) ! 0))"
        using l Cons by (metis length_Cons not_less_eq zero_less_Suc)
      moreover have "\<forall>k. Suc k < length es \<longrightarrow>
          nav_parentId (es ! Suc k) = Some (nav_id (es ! k))"
        using l by (metis Suc_less_eq length_Cons nth_Cons_Suc)
      ultimately show ?R using Cons by simp
    next
      assume r: ?R
      show ?L
      proof (intro allI impI)
        fix k assume "Suc k < length (e # es)"
        then show "nav_parentId ((e # es) ! Suc k) = Some (nav_id ((e # es) ! k))"
          using r Cons by (cases k) auto
      qed
    qed
    then show ?thesis using Cons.IH [of "Some (nav_id e)"] Cons by simp
  qed
qed

lemma step_parentConsistent:
  "pathFrom None (navigationPath s) \<Longrightarrow> pathFrom None (navigationPath (step tn p ev s))"
  by (cases ev)
     (auto simp: handler_defs currentParentId_def isDisabled_def pathFrom_snoc pathFrom_butlast
           split: option.splits)

lemma run_parentConsistent:
  "pathFrom None (navigationPath s) \<Longrightarrow> pathFrom None (navigationPath (run tn p evs s))"
  by (induction evs arbitrary: s) (auto simp: step_parentConsistent)

text \<open>
  Where the last identifier of the path is truthy, or the path is empty, the component's
  derivation of the visible items is the reference derivation.
\<close>

lemma currentItems_spec_truthy:
  "navigationPath s = [] \<or> truthy (nav_id (last (navigationPath s))) \<Longrightarrow>
     currentItems p s = specCurrentItems p s"
  by (cases "navigationPath s")
     (auto simp: currentItems_def getCurrentItems_def currentParentId_def specCurrentItems_def
           specVisible_def specActiveParent_def split: option.splits)

text \<open>
  The lookup of \<^verbatim>\<open>handleSelectAll\<close>, which compares with \<^verbatim>\<open>===\<close>, returns the one
  node whose identifier is the searched id, when there is exactly one.
\<close>

lemma findItem_unique:
  "filter (\<lambda>m. item_id m = i) (preorder xs) = [n] \<Longrightarrow> findItem xs i = Some n"
  by (simp add: findItem_find find_filter_head)

text \<open>An absent selected id resolves to no selection.\<close>

lemma resolveSelected_absent: "resolveSelected tn its None = None"
  by (simp add: resolveSelected_def)

text \<open>\<^verbatim>\<open>handleBack\<close> clears the search query.\<close>

lemma handleBack_clears_query: "searchQuery (handleBack s) = []"
  by (simp add: handleBack_def)

text \<open>\<^verbatim>\<open>handleClose\<close> does reset the component to its defaults.\<close>

lemma handleClose_defaults:
  "isOpen (handleClose s) = False \<and> navigationPath (handleClose s) = [] \<and>
   searchQuery (handleClose s) = [] \<and> isSearching (handleClose s) = False"
  by (simp add: handleClose_def)

section \<open>Clicking a disabled item\<close>

text \<open>
  C8. For every state and every item for which the supplied \<^verbatim>\<open>disableItem\<close> predicate
  returns true, \<^verbatim>\<open>handleItemClick\<close> returns the state as it was: navigation path, search
  query, search flag, open flag and resolved selection are unchanged, and the effect log is
  unchanged, so \<^verbatim>\<open>onSelect\<close> is not invoked.
\<close>

theorem disabled_click_is_noop:
  assumes "disableItem p = Some d" and "d it"
  shows "handleItemClick p it s = s
       \<and> navigationPath (handleItemClick p it s) = navigationPath s
       \<and> searchQuery (handleItemClick p it s) = searchQuery s
       \<and> isSearching (handleItemClick p it s) = isSearching s
       \<and> isOpen (handleItemClick p it s) = isOpen s
       \<and> selectedItem (handleItemClick p it s) = selectedItem s
       \<and> calls (handleItemClick p it s) = calls s"
  using assms by (simp add: handleItemClick_def isDisabled_def)

theorem disabled_click_is_noop_witness:
  "handleItemClick disablingProps leafB (triggerClick initial) = triggerClick initial
   \<and> calls (handleItemClick disablingProps leafB (triggerClick initial)) = []"
  using disabled_click_is_noop
          [of disablingProps "\<lambda>it. item_id it = IdNum 2" leafB "triggerClick initial"]
  by (simp add: disablingProps_def leafB_def initial_def triggerClick_def)

section \<open>Descend followed by Back\<close>

text \<open>
  C5. Descend is what \<^verbatim>\<open>handleItemClick\<close> performs on an item that is not disabled and has
  at least one child: it appends the entry of the item to the path. For every state (hence every
  navigation path) and every such item, \<^verbatim>\<open>handleItemClick\<close> followed immediately by
  \<^verbatim>\<open>handleBack\<close> gives a navigation path equal to the original one, as a list.
\<close>

theorem descend_then_back_restores_path:
  assumes "\<not> isDisabled p it" and "hasChildren it"
  shows "navigationPath (handleItemClick p it s) =
           navigationPath s @
             [\<lparr>nav_id = item_id it, nav_label = item_label it,
               nav_parentId = currentParentId s\<rparr>] \<and>
         navigationPath (handleBack (handleItemClick p it s)) = navigationPath s"
  using assms by (simp add: handleBack_def handleItemClick_def)

theorem descend_then_back_restores_path_witness:
  "\<not> isDisabled exampleProps nodeA \<and> hasChildren nodeA \<and>
   navigationPath (handleItemClick exampleProps nodeA atLevelA) =
     [entryA, \<lparr>nav_id = IdNum 1, nav_label = ''A'', nav_parentId = Some (IdNum 1)\<rparr>] \<and>
   navigationPath (handleBack (handleItemClick exampleProps nodeA atLevelA)) = [entryA]"
  using descend_then_back_restores_path [of exampleProps nodeA atLevelA]
  by (simp add: atLevelA_eq handleItemClick_def derived_defs example_defs)

section \<open>The search query across a change of level\<close>

text \<open>
  C6. The claim is that after every change of the navigation level, Descend as well as Back,
  the search query is the empty string. The component keeps the query when it descends: the
  dropdown is opened, search is switched on, the query \<open>a\<close> is typed and the group \<open>A\<close> is
  clicked; the path now holds the entry of \<open>A\<close> and the query is still \<open>a\<close>, where Back from
  the same state clears it (\<open>handleBack_clears_query\<close>). With a filter supplied, the query \<open>A\<close>
  typed at the root stays after entering \<open>A\<close> and hides the child \<open>A1\<close>.
\<close>

theorem query_survives_descend:
  "offeredRun exampleToNumber exampleProps initial
     [TriggerClick, SearchToggle, QueryInput ''a'', ItemClick nodeA] \<and>
   navigationPath (run exampleToNumber exampleProps
     [TriggerClick, SearchToggle, QueryInput ''a'', ItemClick nodeA] initial) = [entryA] \<and>
   searchQuery (run exampleToNumber exampleProps
     [TriggerClick, SearchToggle, QueryInput ''a'', ItemClick nodeA] initial) = ''a'' \<and>
   searchQuery (run exampleToNumber exampleProps
     [TriggerClick, SearchToggle, QueryInput ''a'', ItemClick nodeA, BackClick] initial) = [] \<and>
   offeredRun exampleToNumber filteringProps initial
     [TriggerClick, SearchToggle, QueryInput ''A'', ItemClick nodeA] \<and>
   searchQuery (run exampleToNumber filteringProps
     [TriggerClick, SearchToggle, QueryInput ''A'', ItemClick nodeA] initial) = ''A'' \<and>
   getCurrentItems filteringProps (run exampleToNumber filteringProps
     [TriggerClick, SearchToggle, QueryInput ''A'', ItemClick nodeA] initial) = [leafA1] \<and>
   currentItems filteringProps (run exampleToNumber filteringProps
     [TriggerClick, SearchToggle, QueryInput ''A'', ItemClick nodeA] initial) = []"
  by (simp add: handler_defs derived_defs example_defs)

section \<open>Parent consistency of the navigation path\<close>

text \<open>
  C10. The navigation path reached from the initial state by any sequence of events is parent
  consistent (\<open>pathFrom_index\<close> spells the predicate out entry by entry), and every single
  transition, whichever event it is, preserves parent consistency.
\<close>

theorem navigation_path_parent_consistent:
  "parentConsistent (navigationPath (run tn p evs initial)) \<and>
   (parentConsistent (navigationPath s) \<longrightarrow>
      parentConsistent (navigationPath (step tn p ev s)))"
proof -
  have "pathFrom None (navigationPath initial)"
    by (simp add: initial_def)
  then have "pathFrom None (navigationPath (run tn p evs initial))"
    by (rule run_parentConsistent)
  then show ?thesis
    by (simp add: parentConsistent_def step_parentConsistent)
qed

theorem navigation_path_parent_consistent_witness:
  "parentConsistent (navigationPath atLevelA) \<and>
   navigationPath (step exampleToNumber exampleProps (ItemClick nodeA) atLevelA) =
     [entryA, \<lparr>nav_id = IdNum 1, nav_label = ''A'', nav_parentId = Some (IdNum 1)\<rparr>] \<and>
   parentConsistent (navigationPath (step exampleToNumber exampleProps (ItemClick nodeA) atLevelA))"
  using navigation_path_parent_consistent
          [of exampleToNumber exampleProps "[]" atLevelA "ItemClick nodeA"]
  by (simp add: atLevelA_eq parentConsistent_def handleItemClick_def derived_defs example_defs)

section \<open>Selecting a leaf\<close>

text \<open>
  C1, as the claim states it, fails. The leaf \<open>A1\<close> is clicked inside the group \<open>A\<close>: the
  dropdown closes and the navigation path still holds the entry of \<open>A\<close>. And with a predicate
  that disables the leaf \<open>B\<close>, a click on \<open>B\<close> in the open dropdown invokes nothing and leaves
  the dropdown open.
\<close>

theorem leaf_click_counterexample:
  "offeredRun exampleToNumber exampleProps initial
     [TriggerClick, ItemClick nodeA, ItemClick leafA1] \<and>
   hasChildren leafA1 = False \<and>
   isOpen (handleItemClick exampleProps leafA1 atLevelA) = False \<and>
   navigationPath (handleItemClick exampleProps leafA1 atLevelA) = [entryA] \<and>
   hasChildren leafB = False \<and>
   calls (handleItemClick disablingProps leafB (triggerClick initial)) = [] \<and>
   isOpen (handleItemClick disablingProps leafB (triggerClick initial)) = True"
  by (simp add: atLevelA_eq handler_defs derived_defs example_defs)

text \<open>
  C1, amended. For every state and every item with no children that the \<^verbatim>\<open>disableItem\<close>
  predicate does not disable, \<^verbatim>\<open>handleItemClick\<close> gives a closed dropdown, an empty search
  query, search mode off, the item as the resolved selection, and exactly one more effect: one
  call of \<^verbatim>\<open>onSelect\<close> with the item and the navigation path as it was at the click.
\<close>

theorem leaf_click_selects:
  assumes "\<not> isDisabled p it" and "\<not> hasChildren it"
  shows "isOpen (handleItemClick p it s) = False \<and>
         searchQuery (handleItemClick p it s) = [] \<and>
         isSearching (handleItemClick p it s) = False \<and>
         selectedItem (handleItemClick p it s) = Some it \<and>
         calls (handleItemClick p it s) = calls s @ [OnSelect it (navigationPath s)]"
  using assms by (simp add: handleItemClick_def)

theorem leaf_click_selects_witness:
  "\<not> isDisabled exampleProps leafA1 \<and> \<not> hasChildren leafA1 \<and>
   isOpen (handleItemClick exampleProps leafA1 atLevelA) = False \<and>
   searchQuery (handleItemClick exampleProps leafA1 atLevelA) = [] \<and>
   selectedItem (handleItemClick exampleProps leafA1 atLevelA) = Some leafA1 \<and>
   calls (handleItemClick exampleProps leafA1 atLevelA) = [OnSelect leafA1 [entryA]]"
  using leaf_click_selects [of exampleProps leafA1 atLevelA]
  by (simp add: atLevelA_eq derived_defs example_defs)

section \<open>Selecting the current level\<close>

text \<open>
  C2, as the claim states it, fails. Inside the first-level group \<open>A\<close>,
  \<^verbatim>\<open>handleSelectAll\<close> calls \<^verbatim>\<open>onSelect\<close> with the node \<open>A\<close> and the path that holds
  the entry of \<open>A\<close> itself, not the empty path. And inside a group whose id is the number 0,
  which the lookup does resolve, \<^verbatim>\<open>handleSelectAll\<close> does nothing.
\<close>

theorem select_all_counterexample:
  "offeredRun exampleToNumber exampleProps initial
     [TriggerClick, ItemClick nodeA, SelectAllClick] \<and>
   findItem (items exampleProps) (IdNum 1) = Some nodeA \<and>
   calls (handleSelectAll exampleProps atLevelA) = [OnSelect nodeA [entryA]] \<and>
   offeredRun exampleToNumber zeroProps initial
     [TriggerClick, ItemClick nodeZ, SelectAllClick] \<and>
   findItem (items zeroProps) (IdNum 0) = Some nodeZ \<and>
   handleSelectAll zeroProps atLevelZ = atLevelZ"
  by (simp add: atLevelA_eq atLevelZ_eq handler_defs derived_defs example_defs)

text \<open>
  C2, amended. For every state with a non-empty navigation path whose last entry's id is truthy
  (not the number 0, not the empty string) and resolves to a node by \<^verbatim>\<open>findItem\<close>,
  \<^verbatim>\<open>handleSelectAll\<close> invokes \<^verbatim>\<open>onSelect\<close> once, with that node and with the navigation
  path as it is at the click (the entry of the node itself is its last entry), records the node
  as the resolved selection, closes the dropdown and clears the search state.
\<close>

theorem select_all_selects_current_level:
  assumes "navigationPath s \<noteq> []"
    and "truthy (nav_id (last (navigationPath s)))"
    and "findItem (items p) (nav_id (last (navigationPath s))) = Some n"
  shows "calls (handleSelectAll p s) = calls s @ [OnSelect n (navigationPath s)] \<and>
         selectedItem (handleSelectAll p s) = Some n \<and>
         isOpen (handleSelectAll p s) = False \<and>
         searchQuery (handleSelectAll p s) = [] \<and>
         isSearching (handleSelectAll p s) = False"
  using assms by (simp add: handleSelectAll_def currentParentId_def)

theorem select_all_selects_current_level_witness:
  "navigationPath atLevelA \<noteq> [] \<and>
   truthy (nav_id (last (navigationPath atLevelA))) \<and>
   findItem (items exampleProps) (nav_id (last (navigationPath atLevelA))) = Some nodeA \<and>
   calls (handleSelectAll exampleProps atLevelA) = [OnSelect nodeA [entryA]] \<and>
   isOpen (handleSelectAll exampleProps atLevelA) = False"
  using select_all_selects_current_level [of atLevelA exampleProps nodeA]
  by (simp add: atLevelA_eq example_defs)

section \<open>The state of a closed dropdown\<close>

text \<open>
  C3. The claim is that in every reachable state with the dropdown closed the navigation path
  and the search query are empty. The component reaches closed states where they are not:
  closing with the trigger button inside the group \<open>A\<close> keeps the path; closing with the
  trigger button after typing the query \<open>a\<close> keeps the query and the search mode; selecting the
  leaf \<open>A1\<close> inside the group \<open>A\<close> closes the dropdown and keeps the path. Each sequence
  consists of events that the rendered component offers. (Only \<^verbatim>\<open>handleClose\<close>, which runs
  on a click outside, resets: \<open>handleClose_defaults\<close>.)
\<close>

theorem closed_dropdown_keeps_state:
  "offeredRun exampleToNumber exampleProps initial
     [TriggerClick, ItemClick nodeA, TriggerClick] \<and>
   isOpen (run exampleToNumber exampleProps
     [TriggerClick, ItemClick nodeA, TriggerClick] initial) = False \<and>
   navigationPath (run exampleToNumber exampleProps
     [TriggerClick, ItemClick nodeA, TriggerClick] initial) = [entryA] \<and>
   offeredRun exampleToNumber exampleProps initial
     [TriggerClick, SearchToggle, QueryInput ''a'', TriggerClick] \<and>
   isOpen (run exampleToNumber exampleProps
     [TriggerClick, SearchToggle, QueryInput ''a'', TriggerClick] initial) = False \<and>
   searchQuery (run exampleToNumber exampleProps
     [TriggerClick, SearchToggle, QueryInput ''a'', TriggerClick] initial) = ''a'' \<and>
   isSearching (run exampleToNumber exampleProps
     [TriggerClick, SearchToggle, QueryInput ''a'', TriggerClick] initial) = True \<and>
   offeredRun exampleToNumber exampleProps initial
     [TriggerClick, ItemClick nodeA, ItemClick leafA1] \<and>
   isOpen (run exampleToNumber exampleProps
     [TriggerClick, ItemClick nodeA, ItemClick leafA1] initial) = False \<and>
   navigationPath (run exampleToNumber exampleProps
     [TriggerClick, ItemClick nodeA, ItemClick leafA1] initial) = [entryA]"
  by (simp add: handler_defs derived_defs example_defs)

section \<open>The visible items\<close>

text \<open>
  C4. The claim is that \<^verbatim>\<open>currentItems()\<close> equals the reference derivation for every id
  that can occur in a path, the number 0 and the empty string included. Inside the group whose
  id is 0, and inside the group whose id is the empty string, the component shows the top-level
  items, where the reference derivation gives the children of the group. (For a truthy last id
  and at the root the two agree: \<open>currentItems_spec_truthy\<close>.)
\<close>

theorem falsy_parent_shows_top_level:
  "offeredRun exampleToNumber zeroProps initial [TriggerClick, ItemClick nodeZ] \<and>
   navigationPath atLevelZ = [entryZ] \<and>
   currentItems zeroProps atLevelZ = [nodeZ, leafB] \<and>
   specCurrentItems zeroProps atLevelZ = [leafZ1] \<and>
   offeredRun exampleToNumber emptyIdProps initial [TriggerClick, ItemClick nodeE] \<and>
   navigationPath atLevelE = [\<lparr>nav_id = IdStr [], nav_label = ''E'', nav_parentId = None\<rparr>] \<and>
   currentItems emptyIdProps atLevelE = [nodeE, leafB] \<and>
   specCurrentItems emptyIdProps atLevelE = [leafZ1]"
  by (simp add: atLevelZ_eq atLevelE_def handler_defs derived_defs example_defs
        specCurrentItems_def specVisible_def specActiveParent_def)

section \<open>The lookup is a pre-order search\<close>

text \<open>
  C7. The claim is that for every tree with exactly one node whose identifier equals a given id,
  the lookup returns that node, by a depth-first pre-order search that returns on the first
  match. Both copies of \<^verbatim>\<open>findItem\<close> search in pre-order (\<open>findItem_find\<close>,
  \<open>findItemLoose_find\<close>), and the copy in \<^verbatim>\<open>handleSelectAll\<close> returns the unique node
  (\<open>findItem_unique\<close>). The copy in the selected-item effect compares with \<^verbatim>\<open>==\<close>: in the
  tree of the two leaves \<open>S\<close> (id the string \<open>1\<close>) and \<open>N\<close> (id the number 1), exactly one
  node has the id 1, the node \<open>N\<close>, and the lookup of the number 1 returns \<open>S\<close>.
\<close>

theorem loose_lookup_returns_other_node:
  "preorder [nodeS, nodeN] = [nodeS, nodeN] \<and>
   filter (\<lambda>m. item_id m = IdNum 1) (preorder [nodeS, nodeN]) = [nodeN] \<and>
   findItem [nodeS, nodeN] (IdNum 1) = Some nodeN \<and>
   findItemLoose exampleToNumber [nodeS, nodeN] (IdNum 1) = Some nodeS \<and>
   item_id nodeS = IdStr ''1''"
  by (simp add: example_defs)

section \<open>Resolving the selected id\<close>

text \<open>
  C9. The claim is that the resolved selection is recomputed by a search of the whole tree when
  the selected id changes, and becomes none when the id is absent or no node of the tree has
  that id. An absent id does give none (\<open>resolveSelected_absent\<close>). But in the tree whose
  first group has the number 0 as id, no node has the empty string as id, and the selected id
  \<open>''\<close> resolves to that group, because the effect's lookup compares with \<^verbatim>\<open>==\<close>.
\<close>

theorem resync_resolves_absent_id:
  "map item_id (preorder (items zeroProps)) = [IdNum 0, IdNum 5, IdNum 2] \<and>
   filter (\<lambda>m. item_id m = IdStr []) (preorder (items zeroProps)) = [] \<and>
   findItem (items zeroProps) (IdStr []) = None \<and>
   resolveSelected exampleToNumber (items zeroProps) (Some (IdStr [])) = Some nodeZ \<and>
   selectedItem (step exampleToNumber zeroProps (SelectedIdChange (Some (IdStr []))) initial)
     = Some nodeZ"
  by (simp add: handler_defs example_defs)

end
